theory Spec2Isabelle
  imports Main "HOL-Library.Sublist" "HOL-Library.Char_ord" "HOL-Library.List_Lexorder"
begin

section \<open>Python string primitives used by create\_timelapse\_video.py\<close>

text \<open>
  Strings are lists of characters. The primitives below follow the behaviour of the
  Python built-ins on ASCII text; \<open>str.startswith\<close> is \<^const>\<open>prefix\<close>, and
  \<open>sorted\<close> on a list of strings is \<^const>\<open>sort\<close> under the lexicographic
  order on character codes.
\<close>

definition is_space :: "char \<Rightarrow> bool" where
  \<comment> \<open>the ASCII characters for which \<open>str.isspace\<close> holds: TAB..CR, FS..US and the blank\<close>
  "is_space c = (of_char c \<in> {9, 10, 11, 12, 13, 28, 29, 30, 31, 32 :: nat})"

definition strip :: "string \<Rightarrow> string" where
  \<comment> \<open>\<open>s.strip()\<close>\<close>
  "strip s = rev (dropWhile is_space (rev (dropWhile is_space s)))"

fun split_char :: "char \<Rightarrow> string \<Rightarrow> string list" where
  \<comment> \<open>\<open>s.split(sep)\<close> for a separator of one character: always at least one field\<close>
  "split_char sep [] = [[]]"
| "split_char sep (c # cs) =
     (if c = sep then [] # split_char sep cs
      else (case split_char sep cs of
              [] \<Rightarrow> [[c]]
            | w # ws \<Rightarrow> (c # w) # ws))"

fun join :: "string \<Rightarrow> string list \<Rightarrow> string" where
  \<comment> \<open>\<open>sep.join(xs)\<close> on a list of strings\<close>
  "join sep [] = []"
| "join sep [x] = x"
| "join sep (x # y # ys) = x @ sep @ join sep (y # ys)"

function replace_from :: "string \<Rightarrow> string \<Rightarrow> string \<Rightarrow> string" where
  \<comment> \<open>left-to-right replacement of the non-overlapping occurrences of a non-empty \<open>old\<close>\<close>
  "replace_from old new [] = []"
| "replace_from old new (c # cs) =
     (if old \<noteq> [] \<and> prefix old (c # cs)
      then new @ replace_from old new (drop (length old) (c # cs))
      else c # replace_from old new cs)"
  by pat_completeness auto
termination
  by (relation "measure (\<lambda>(old, new, s). length s)") (auto simp: neq_Nil_conv)

definition replace :: "string \<Rightarrow> string \<Rightarrow> string \<Rightarrow> string" where
  \<comment> \<open>\<open>s.replace(old, new)\<close>: every occurrence; an empty \<open>old\<close> matches before each
      character and at the end\<close>
  "replace s old new =
     (if old = [] then new @ concat (map (\<lambda>c. c # new) s)
      else replace_from old new s)"


subsection \<open>Integers as text\<close>

definition is_digit :: "char \<Rightarrow> bool" where
  "is_digit c = (48 \<le> (of_char c :: nat) \<and> (of_char c :: nat) \<le> 57)"

definition digit_val :: "char \<Rightarrow> nat" where
  "digit_val c = of_char c - 48"

definition digit_char :: "nat \<Rightarrow> char" where
  "digit_char d = char_of (48 + d)"

fun str_nat :: "nat \<Rightarrow> string" where
  "str_nat n = (if n < 10 then [digit_char n] else str_nat (n div 10) @ [digit_char (n mod 10)])"

declare str_nat.simps [simp del]

definition str_int :: "int \<Rightarrow> string" where
  \<comment> \<open>\<open>str(i)\<close> for an integer\<close>
  "str_int i = (if i < 0 then CHR ''-'' # str_nat (nat (- i)) else str_nat (nat i))"

datatype exn =
    ValueError string
  | TypeError string
  | IndexError string
  | OverflowError string
  | OSError string

fun str_exn :: "exn \<Rightarrow> string" where
  \<comment> \<open>\<open>str(e)\<close>: the message the exception carries\<close>
  "str_exn (ValueError m) = m"
| "str_exn (TypeError m) = m"
| "str_exn (IndexError m) = m"
| "str_exn (OverflowError m) = m"
| "str_exn (OSError m) = m"

fun int_digits :: "nat \<Rightarrow> string \<Rightarrow> nat option" where
  \<comment> \<open>the digits of an integer literal, read after its sign: a single underscore may stand
      between two digits\<close>
  "int_digits acc [] = Some acc"
| "int_digits acc [c] = (if is_digit c then Some (10 * acc + digit_val c) else None)"
| "int_digits acc (c # d # cs) =
     (if is_digit c then int_digits (10 * acc + digit_val c) (d # cs)
      else if c = CHR ''_'' \<and> is_digit d then int_digits acc (d # cs)
      else None)"

definition int_literal :: "string \<Rightarrow> int option" where
  "int_literal s =
     (let neg = (s \<noteq> [] \<and> hd s = CHR ''-'');
          body = (if s \<noteq> [] \<and> (hd s = CHR ''-'' \<or> hd s = CHR ''+'') then tl s else s)
      in if body = [] \<or> \<not> is_digit (hd body) then None
         else (case int_digits 0 body of
                 None \<Rightarrow> None
               | Some v \<Rightarrow> Some (if neg then - int v else int v)))"

definition is_int_space :: "char \<Rightarrow> bool" where
  \<comment> \<open>the white space that \<open>int\<close> ignores around a literal: TAB..CR and the blank\<close>
  "is_int_space c = (of_char c \<in> {9, 10, 11, 12, 13, 32 :: nat})"

definition py_int :: "string \<Rightarrow> exn + int" where
  \<comment> \<open>\<open>int(s)\<close> on ASCII text: surrounding white space is ignored, anything that is not an
      integer literal raises ValueError\<close>
  "py_int s =
     (case int_literal (rev (dropWhile is_int_space (rev (dropWhile is_int_space s)))) of
        None \<Rightarrow> Inl (ValueError (''invalid literal for int() with base 10: '' @ [CHR 0x27] @ s @ [CHR 0x27]))
      | Some v \<Rightarrow> Inr v)"

section \<open>Configuration\<close>

text \<open>
  A scalar of the parsed \<open>config.yaml\<close>: a string or an integer. \<open>str(v)\<close> is
  \<open>py_str\<close>.
\<close>

datatype pyval = PStr string | PInt int

fun py_str :: "pyval \<Rightarrow> string" where
  "py_str (PStr s) = s"
| "py_str (PInt i) = str_int i"

text \<open>
  The module-level \<open>config\<close> dictionary, one field for each key the program reads
  (\<open>config['image_input']['folder']\<close> is \<open>image_input_folder\<close>, and so on). The
  encoder parameters are kept as scalars, since the program passes them through
  \<open>str\<close>; the paths, the name parts and \<open>morning_time\<close> are strings, the switches
  are truth values.
\<close>

record config =
  image_input_folder :: string
  image_input_folder_structure :: string
  image_input_extension :: string
  image_input_morning_to_morning :: bool
  image_input_morning_time :: string
  video_output_folder :: string
  video_output_folder_structure :: string
  video_output_video_filter :: pyval
  video_output_codec :: pyval
  video_output_crf :: pyval
  video_output_preset :: pyval
  video_output_max_bitrate :: pyval
  video_output_min_bitrate :: pyval
  video_output_buffer_size :: pyval
  video_output_video_size :: pyval
  filename_prefix :: string
  filename_suffix :: string
  filename_extension :: string
  filename_append_metadata :: bool
  metadata_save_to_file :: bool

section \<open>Naming\<close>

definition sanitize_for_filename :: "pyval \<Rightarrow> string" where
  "sanitize_for_filename v =
     replace (replace (replace (py_str v) '' '' ''_'') '':'' ''_'') ''/'' ''_''"

definition append_metadata_to_filename :: "config \<Rightarrow> string \<Rightarrow> string" where
  "append_metadata_to_filename cfg base_filename =
     (let metadata =
        (if filename_append_metadata cfg then
           [''filter-'' @ sanitize_for_filename (video_output_video_filter cfg),
            ''codec-'' @ sanitize_for_filename (video_output_codec cfg),
            ''crf-'' @ sanitize_for_filename (video_output_crf cfg),
            ''preset-'' @ sanitize_for_filename (video_output_preset cfg),
            ''bitrate-'' @ sanitize_for_filename (video_output_max_bitrate cfg),
            ''size-'' @ sanitize_for_filename (video_output_video_size cfg)]
         else [])
      in if metadata \<noteq> [] then base_filename @ ''_'' @ join ''_'' metadata
         else base_filename)"

section \<open>Command builder\<close>

definition build_ffmpeg_command :: "config \<Rightarrow> string \<Rightarrow> string \<Rightarrow> pyval list" where
  "build_ffmpeg_command cfg image_list_file output_path =
     (let ffmpeg_command =
        [PStr ''ffmpeg'', PStr ''-y'', PStr ''-loglevel'', PStr ''error'', PStr ''-hide_banner'',
         PStr ''-f'', PStr ''concat'', PStr ''-safe'', PStr ''0'', PStr ''-i'', PStr image_list_file,
         PStr ''-vf'', video_output_video_filter cfg,
         PStr ''-c:v'', video_output_codec cfg,
         PStr ''-crf'', PStr (py_str (video_output_crf cfg)),
         PStr ''-preset'', video_output_preset cfg,
         PStr ''-b:v'', video_output_max_bitrate cfg,
         PStr ''-minrate'', video_output_min_bitrate cfg,
         PStr ''-maxrate'', video_output_max_bitrate cfg,
         PStr ''-bufsize'', video_output_buffer_size cfg,
         PStr ''-s'', video_output_video_size cfg];
          ffmpeg_command =
        (if video_output_codec cfg \<in> set [PStr ''h264_v4l2m2m'', PStr ''libx264'', PStr ''libx265'']
         then ffmpeg_command @ [PStr ''-pix_fmt''] @ [PStr ''yuv420p'']
                @ [PStr ''-color_range''] @ [PStr ''tv'']
         else ffmpeg_command)
      in ffmpeg_command @ [PStr output_path])"


section \<open>The world outside the program\<close>

text \<open>
  A calendar date is its proleptic Gregorian ordinal (\<open>date.toordinal()\<close>); a naive
  local date-time and a duration are counts of microseconds, the date-time counted from
  midnight of ordinal 0. \<open>date.max\<close> is 9999-12-31.
\<close>

definition date_max :: int where
  "date_max = 3652059"

definition usec_per_day :: int where
  "usec_per_day = 86400000000"

datatype level = INFO | ERROR | WARNING

datatype content = Text string | Json "(string \<times> pyval) list"

text \<open>
  The record below holds what the run reads from its environment and what it leaves
  behind.
  \<^item> Read: the answer of \<open>glob.glob\<close> to a pattern; the local date-time
    \<open>datetime.fromtimestamp(os.path.getmtime(p))\<close> of a path, or the exception of the
    call; the library's renderings of dates, date-times and durations
    (\<open>date.strftime\<close>, \<open>str(date)\<close>, \<open>datetime.strftime\<close>, \<open>str(timedelta)\<close>);
    the two readings of \<open>datetime.now()\<close>; the exception, if any, with which
    \<open>mkdir\<close> of a missing folder or \<open>open(p, 'w')\<close> fails; what launching a command
    yields, either the exception of \<open>subprocess.Popen\<close> or the lines of the child's
    combined output (each as \<open>readline\<close> returns it, decoded); and
    \<open>os.path.getsize\<close> as observed once the child has finished.
  \<^item> Left behind: the existing directories, the files written (in order), the commands
    launched (in order) and the calls of the logger, each with its level, colour and
    message.
\<close>

record world =
  glob_w :: "string \<Rightarrow> string list"
  getmtime_w :: "string \<Rightarrow> exn + int"
  date_strftime_w :: "int \<Rightarrow> string \<Rightarrow> string"
  date_str_w :: "int \<Rightarrow> string"
  datetime_strftime_w :: "int \<Rightarrow> string \<Rightarrow> string"
  timedelta_str_w :: "int \<Rightarrow> string"
  now_start_w :: int
  now_end_w :: int
  mkdir_err_w :: "string \<Rightarrow> exn option"
  open_err_w :: "string \<Rightarrow> exn option"
  popen_w :: "string list \<Rightarrow> exn + string list"
  getsize_w :: "string \<Rightarrow> exn + int"
  dirs_w :: "string set"
  written_w :: "(string \<times> content) list"
  spawned_w :: "string list list"
  log_w :: "(level \<times> string \<times> string) list"

definition path_join :: "string \<Rightarrow> string \<Rightarrow> string" where
  \<comment> \<open>\<open>os.path.join(a, b)\<close> on POSIX\<close>
  "path_join a b =
     (if prefix ''/'' b then b
      else if a = [] \<or> last a = CHR ''/'' then a @ b
      else a @ ''/'' @ b)"

definition makedirs_exist_ok :: "string \<Rightarrow> world \<Rightarrow> (exn + unit) \<times> world" where
  \<comment> \<open>\<open>os.makedirs(name, exist_ok=True)\<close>: an existing directory is a success\<close>
  "makedirs_exist_ok name w =
     (if name \<in> dirs_w w then (Inr (), w)
      else (case mkdir_err_w w name of
              Some e \<Rightarrow> (Inl e, w)
            | None \<Rightarrow> (Inr (), w\<lparr>dirs_w := insert name (dirs_w w)\<rparr>)))"

definition open_write :: "string \<Rightarrow> content \<Rightarrow> world \<Rightarrow> (exn + unit) \<times> world" where
  \<comment> \<open>\<open>with open(path, 'w') as f:\<close> followed by the writes of the body\<close>
  "open_write path c w =
     (case open_err_w w path of
        Some e \<Rightarrow> (Inl e, w)
      | None \<Rightarrow> (Inr (), w\<lparr>written_w := written_w w @ [(path, c)]\<rparr>))"

definition popen :: "string list \<Rightarrow> world \<Rightarrow> (exn + string list) \<times> world" where
  \<comment> \<open>\<open>subprocess.Popen(cmd, stdout=PIPE, stderr=STDOUT)\<close>\<close>
  "popen cmd w =
     (case popen_w w cmd of
        Inl e \<Rightarrow> (Inl e, w)
      | Inr out \<Rightarrow> (Inr out, w\<lparr>spawned_w := spawned_w w @ [cmd]\<rparr>))"

definition log_with_color :: "string \<Rightarrow> string \<Rightarrow> string \<Rightarrow> world \<Rightarrow> world" where
  "log_with_color message level color w =
     (if level = ''info'' then w\<lparr>log_w := log_w w @ [(INFO, color, message)]\<rparr>
      else if level = ''error'' then w\<lparr>log_w := log_w w @ [(ERROR, color, message)]\<rparr>
      else if level = ''warning'' then w\<lparr>log_w := log_w w @ [(WARNING, color, message)]\<rparr>
      else w)"

section \<open>Progress monitor\<close>

definition tqdm_update :: "int \<Rightarrow> int \<Rightarrow> int" where
  \<comment> \<open>\<open>progress_bar.update(k)\<close> on a bar whose counter \<open>progress_bar.n\<close> is \<open>n\<close>: the
      counter becomes \<open>n + k\<close>, also for a negative \<open>k\<close>\<close>
  "tqdm_update k n = n + k"

fun progress_loop :: "string list \<Rightarrow> int \<Rightarrow> exn + int" where
  \<comment> \<open>the \<open>while True\<close> loop, on the lines still to be read and the bar's counter; the
      end of the stream reads as an empty line\<close>
  "progress_loop [] n = Inr n"
| "progress_loop (raw # rest) n =
     (let line = strip raw in
      if line = [] then Inr n
      else if prefix ''frame='' line then
        (case split_char CHR ''='' line of
           f0 # f1 # fs \<Rightarrow>
             (case py_int (strip f1) of
                Inl e \<Rightarrow> Inl e
              | Inr frame \<Rightarrow> progress_loop rest (tqdm_update (frame - n) n))
         | _ \<Rightarrow> Inl (IndexError ''list index out of range''))
      else progress_loop rest n)"

definition parse_ffmpeg_progress :: "string list \<Rightarrow> nat \<Rightarrow> exn + int" where
  \<comment> \<open>the result is the counter of the bar when it is closed\<close>
  "parse_ffmpeg_progress stdout total_frames = progress_loop stdout 0"


section \<open>Image selection\<close>

definition get_image_files :: "config \<Rightarrow> world \<Rightarrow> int \<Rightarrow> string list" where
  "get_image_files cfg w date =
     (let folder_structure = image_input_folder_structure cfg;
          folder = path_join (image_input_folder cfg) (date_strftime_w w date folder_structure);
          search_pattern = path_join folder (''*'' @ image_input_extension cfg)
      in sort (glob_w w search_pattern))"

text \<open>
  \<open>datetime.strptime(s, "%H:%M").time()\<close>, in microseconds after midnight. The hour
  is read by \<open>2[0-3]|[0-1]\d|\d\<close> and the minute by \<open>[0-5]\d|\d\<close>; text left
  over after the minute is an error.
\<close>

definition hour_field :: "string \<Rightarrow> (nat \<times> string) option" where
  "hour_field s =
     (case s of
        [] \<Rightarrow> None
      | [a] \<Rightarrow> if is_digit a then Some (digit_val a, []) else None
      | a # b # r \<Rightarrow>
          if (a = CHR ''2'' \<and> b \<in> set ''0123'') \<or> (a \<in> set ''01'' \<and> is_digit b)
          then Some (10 * digit_val a + digit_val b, r)
          else if is_digit a then Some (digit_val a, b # r)
          else None)"

definition minute_field :: "string \<Rightarrow> (nat \<times> string) option" where
  "minute_field s =
     (case s of
        [] \<Rightarrow> None
      | [a] \<Rightarrow> if is_digit a then Some (digit_val a, []) else None
      | a # b # r \<Rightarrow>
          if a \<in> set ''012345'' \<and> is_digit b
          then Some (10 * digit_val a + digit_val b, r)
          else if is_digit a then Some (digit_val a, b # r)
          else None)"

definition no_match :: "string \<Rightarrow> exn" where
  "no_match s =
     ValueError (''time data '' @ [CHR 0x27] @ s @ [CHR 0x27]
                 @ '' does not match format '' @ [CHR 0x27] @ ''%H:%M'' @ [CHR 0x27])"

definition strptime_HM :: "string \<Rightarrow> exn + int" where
  "strptime_HM s =
     (case hour_field s of
        None \<Rightarrow> Inl (no_match s)
      | Some (h, r) \<Rightarrow>
          (case r of
             [] \<Rightarrow> Inl (no_match s)
           | c # r' \<Rightarrow>
               if c \<noteq> CHR '':'' then Inl (no_match s)
               else (case minute_field r' of
                       None \<Rightarrow> Inl (no_match s)
                     | Some (m, rest) \<Rightarrow>
                         if rest \<noteq> [] then Inl (ValueError (''unconverted data remains: '' @ rest))
                         else Inr ((int h * 3600 + int m * 60) * 1000000))))"

fun filter_by_mtime :: "(int \<Rightarrow> bool) \<Rightarrow> world \<Rightarrow> string list \<Rightarrow> exn + string list" where
  \<comment> \<open>\<open>[img for img in images if keep(datetime.fromtimestamp(os.path.getmtime(img)))]\<close>\<close>
  "filter_by_mtime keep w [] = Inr []"
| "filter_by_mtime keep w (img # imgs) =
     (case getmtime_w w img of
        Inl e \<Rightarrow> Inl e
      | Inr t \<Rightarrow>
          (case filter_by_mtime keep w imgs of
             Inl e \<Rightarrow> Inl e
           | Inr kept \<Rightarrow> Inr (if keep t then img # kept else kept)))"

definition select_images :: "config \<Rightarrow> int \<Rightarrow> world \<Rightarrow> (exn + string list) \<times> world" where
  \<comment> \<open>lines 146 to 167 of \<open>create_timelapse\<close>\<close>
  "select_images cfg date w =
     (if image_input_morning_to_morning cfg then
        (let w = log_with_color ''Applying morning-to-morning logic'' ''info'' ''cyan'' w in
         case strptime_HM (image_input_morning_time cfg) of
           Inl e \<Rightarrow> (Inl e, w)
         | Inr morning_time \<Rightarrow>
             let start_time_morning = date * usec_per_day + morning_time in
             if date + 1 > date_max then (Inl (OverflowError ''date value out of range''), w)
             else
               let end_time_morning = start_time_morning + usec_per_day;
                   today_images = get_image_files cfg w date in
               case filter_by_mtime (\<lambda>t. t \<ge> start_time_morning) w today_images of
                 Inl e \<Rightarrow> (Inl e, w)
               | Inr today_filtered_images \<Rightarrow>
                   let tomorrow_images = get_image_files cfg w (date + 1) in
                   case filter_by_mtime (\<lambda>t. t \<le> end_time_morning) w tomorrow_images of
                     Inl e \<Rightarrow> (Inl e, w)
                   | Inr tomorrow_filtered_images \<Rightarrow>
                       (Inr (today_filtered_images @ tomorrow_filtered_images), w))
      else (Inr (get_image_files cfg w date), w))"

section \<open>Run orchestrator\<close>

definition create_ffmpeg_file_list :: "string list \<Rightarrow> world \<Rightarrow> (exn + string) \<times> world" where
  "create_ffmpeg_file_list images w =
     (let temp_list_file = ''ffmpeg_images.txt'' in
      case open_write temp_list_file
             (Text (concat (map (\<lambda>image. ''file '' @ [CHR 0x27] @ image @ [CHR 0x27, CHR 0x0A]) images))) w of
        (Inl e, w') \<Rightarrow> (Inl e, w')
      | (Inr u, w') \<Rightarrow> (Inr temp_list_file, w'))"

definition build_output_path :: "config \<Rightarrow> int \<Rightarrow> world \<Rightarrow> (exn + string) \<times> world" where
  \<comment> \<open>lines 181 to 193 of \<open>create_timelapse\<close>\<close>
  "build_output_path cfg date w =
     (let output_folder =
            path_join (video_output_folder cfg)
              (date_strftime_w w date (video_output_folder_structure cfg)) in
      case makedirs_exist_ok output_folder w of
        (Inl e, w') \<Rightarrow> (Inl e, w')
      | (Inr u, w') \<Rightarrow>
          let base_filename =
                filename_prefix cfg @ date_strftime_w w date ''%Y_%m_%d'' @ filename_suffix cfg;
              output_filename = append_metadata_to_filename cfg base_filename;
              output_filename = output_filename @ filename_extension cfg;
              output_path = path_join output_folder output_filename
          in (Inr output_path, w'))"

fun str_items :: "nat \<Rightarrow> pyval list \<Rightarrow> exn + string list" where
  \<comment> \<open>the items of a list handed to \<open>str.join\<close>: each must be a string\<close>
  "str_items i [] = Inr []"
| "str_items i (PStr s # vs) =
     (case str_items (Suc i) vs of Inl e \<Rightarrow> Inl e | Inr ss \<Rightarrow> Inr (s # ss))"
| "str_items i (PInt k # vs) =
     Inl (TypeError (''sequence item '' @ str_nat i @ '': expected str instance, int found''))"

definition format_2f_mb :: "int \<Rightarrow> string" where
  \<comment> \<open>\<open>f"{nbytes / (1024 * 1024):.2f}"\<close> for a size, which is never negative: the
      quotient is exact in binary floating point for a size below \<open>2 ^ 53\<close>, and the
      rendering rounds it to the nearest hundredth, a tie to the even one\<close>
  "format_2f_mb nbytes =
     (let q = (nbytes * 100) div 1048576;
          r = (nbytes * 100) mod 1048576;
          h = (if 2 * r > 1048576 \<or> (2 * r = 1048576 \<and> odd q) then q + 1 else q)
      in str_int (h div 100) @ ''.''
           @ [digit_char (nat (h mod 100 div 10)), digit_char (nat (h mod 10))])"

definition save_metadata_to_json ::
  "config \<Rightarrow> string \<Rightarrow> (string \<times> pyval) list \<Rightarrow> world \<Rightarrow> (exn + unit) \<times> world" where
  "save_metadata_to_json cfg output_path metadata w =
     (let json_filename = replace output_path (filename_extension cfg) ''.json'' in
      case open_write json_filename (Json metadata) w of
        (Inl e, w') \<Rightarrow> (Inl e, w')
      | (Inr u, w') \<Rightarrow>
          (Inr (), log_with_color (''Metadata saved to '' @ json_filename) ''info'' ''green'' w'))"

definition truthy :: "int option \<Rightarrow> bool" where
  \<comment> \<open>\<open>if args.test_amount:\<close> neither absent nor zero\<close>
  "truthy a = (case a of None \<Rightarrow> False | Some k \<Rightarrow> k \<noteq> 0)"

definition slice_to :: "'a list \<Rightarrow> int \<Rightarrow> 'a list" where
  \<comment> \<open>\<open>xs[:k]\<close>; a negative \<open>k\<close> counts from the end\<close>
  "slice_to xs k = (if k < 0 then take (nat (int (length xs) + k)) xs else take (nat k) xs)"

definition limit_images :: "int option \<Rightarrow> string list \<Rightarrow> world \<Rightarrow> string list \<times> world" where
  \<comment> \<open>lines 173 to 176 of \<open>create_timelapse\<close>\<close>
  "limit_images test_amount images w =
     (if truthy test_amount then
        (slice_to images (the test_amount),
         log_with_color (''Using only the first '' @ str_int (the test_amount) @ '' images for testing'')
           ''info'' ''magenta'' w)
      else (images, w))"

definition metadata_of ::
  "config \<Rightarrow> world \<Rightarrow> int \<Rightarrow> int option \<Rightarrow> string \<Rightarrow> int \<Rightarrow> int \<Rightarrow> int \<Rightarrow> string list
     \<Rightarrow> (string \<times> pyval) list" where
  \<comment> \<open>the dictionary of lines 218 to 234\<close>
  "metadata_of cfg w date test_amount output_path file_size start_time end_time images =
     [(''date'', PStr (date_strftime_w w date ''%Y-%m-%d'')),
      (''output_file'', PStr output_path),
      (''file_size_MB'', PStr (format_2f_mb file_size)),
      (''duration'', PStr (timedelta_str_w w (end_time - start_time))),
      (''start_time'', PStr (datetime_strftime_w w start_time ''%Y-%m-%d %H:%M:%S'')),
      (''end_time'', PStr (datetime_strftime_w w end_time ''%Y-%m-%d %H:%M:%S'')),
      (''number_of_images'', PInt (int (length images))),
      (''image_input_folder'', PStr (image_input_folder cfg)),
      (''video_filter'', video_output_video_filter cfg),
      (''codec'', video_output_codec cfg),
      (''crf'', video_output_crf cfg),
      (''preset'', video_output_preset cfg),
      (''bitrate'', video_output_max_bitrate cfg),
      (''video_size'', video_output_video_size cfg),
      (''test_amount'', if truthy test_amount then PInt (the test_amount) else PStr ''full'')]"

definition encode_selected ::
  "config \<Rightarrow> int \<Rightarrow> int option \<Rightarrow> int \<Rightarrow> string list \<Rightarrow> world \<Rightarrow> exn option \<times> world" where
  \<comment> \<open>lines 173 to 236 of \<open>create_timelapse\<close>: the run once the selection is not empty;
      the first component is the exception that ended it, if any\<close>
  "encode_selected cfg date test_amount start_time images0 w0 =
     (case limit_images test_amount images0 w0 of (images, w) \<Rightarrow>
      case create_ffmpeg_file_list images w of
        (Inl e, w) \<Rightarrow> (Some e, w)
      | (Inr image_list_file, w) \<Rightarrow>
      case build_output_path cfg date w of
        (Inl e, w) \<Rightarrow> (Some e, w)
      | (Inr output_path, w) \<Rightarrow>
      let ffmpeg_command = build_ffmpeg_command cfg image_list_file output_path;
          ffmpeg_command = ffmpeg_command @ [PStr ''-progress'', PStr ''-'', PStr ''-nostats'']
      in
      case str_items 0 ffmpeg_command of
        Inl e \<Rightarrow> (Some e, w)
      | Inr cmd \<Rightarrow>
      let w = log_with_color (''Running FFmpeg command: '' @ join '' '' cmd) ''info'' ''cyan'' w in
      case popen cmd w of
        (Inl e, w) \<Rightarrow> (Some e, w)
      | (Inr out, w) \<Rightarrow>
      case parse_ffmpeg_progress out (length images) of
        Inl e \<Rightarrow> (Some e, w)
      | Inr n \<Rightarrow>
      let end_time = now_end_w w;
          duration = end_time - start_time
      in
      case getsize_w w output_path of
        Inl e \<Rightarrow> (Some e, w)
      | Inr file_size \<Rightarrow>
      let w = log_with_color (''Timelapse created successfully: '' @ output_path) ''info'' ''green'' w;
          w = log_with_color (''Timelapse duration: '' @ timedelta_str_w w duration) ''info'' ''blue'' w;
          w = log_with_color (''Output file size: '' @ format_2f_mb file_size @ '' MB'') ''info'' ''blue'' w
      in
      if metadata_save_to_file cfg then
        (case save_metadata_to_json cfg output_path
                (metadata_of cfg w date test_amount output_path file_size start_time end_time images) w of
           (Inl e, w) \<Rightarrow> (Some e, w)
         | (Inr u, w) \<Rightarrow> (None, w))
      else (None, w))"

definition create_timelapse_try :: "config \<Rightarrow> int \<Rightarrow> int option \<Rightarrow> world \<Rightarrow> exn option \<times> world" where
  \<comment> \<open>the body of the \<open>try\<close> of \<open>create_timelapse\<close>\<close>
  "create_timelapse_try cfg date test_amount w0 =
     (let start_time = now_start_w w0;
          w = log_with_color (''Creating timelapse for date: '' @ date_str_w w0 date) ''info'' ''green'' w0
      in
      case select_images cfg date w of
        (Inl e, w) \<Rightarrow> (Some e, w)
      | (Inr images, w) \<Rightarrow>
          if images = [] then
            (None, log_with_color (''No images found for the selected date: '' @ date_str_w w date)
                     ''error'' ''red'' w)
          else encode_selected cfg date test_amount start_time images w)"

definition create_timelapse :: "config \<Rightarrow> int \<Rightarrow> int option \<Rightarrow> world \<Rightarrow> world" where
  \<comment> \<open>\<open>create_timelapse(date)\<close>, with \<open>args.test_amount\<close> as a parameter: an exception of
      the body is handled by \<open>except Exception as e\<close>\<close>
  "create_timelapse cfg date test_amount w =
     (case create_timelapse_try cfg date test_amount w of
        (Some e, w') \<Rightarrow> log_with_color (''Error creating timelapse: '' @ str_exn e) ''error'' ''red'' w'
      | (None, w') \<Rightarrow> w')"

section \<open>A sample configuration and a sample world\<close>

text \<open>
  A configuration in the usual layout, and a world for the 17th of May 2024 (ordinal
  739023): three images in the folder of the day, two in the folder of the next day, none in the
  folder of the day after, an
  encoder that reports three frames and leaves a file of 10 MB.
\<close>

definition sample_config :: config where
  "sample_config =
     \<lparr>image_input_folder = ''in'',
      image_input_folder_structure = ''%Y%m%d'',
      image_input_extension = ''.jpg'',
      image_input_morning_to_morning = False,
      image_input_morning_time = ''07:30'',
      video_output_folder = ''out'',
      video_output_folder_structure = ''%Y'',
      video_output_video_filter = PStr ''fps=25'',
      video_output_codec = PStr ''libx264'',
      video_output_crf = PInt 23,
      video_output_preset = PStr ''medium'',
      video_output_max_bitrate = PStr ''5M'',
      video_output_min_bitrate = PStr ''1M'',
      video_output_buffer_size = PStr ''10M'',
      video_output_video_size = PStr ''1920x1080'',
      filename_prefix = ''tl_'',
      filename_suffix = '''',
      filename_extension = ''.mp4'',
      filename_append_metadata = False,
      metadata_save_to_file = True\<rparr>"

definition sample_strftime :: "int \<Rightarrow> string \<Rightarrow> string" where
  "sample_strftime d f =
     (if d = 739023 then
        (if f = ''%Y%m%d'' then ''20240517''
         else if f = ''%Y_%m_%d'' then ''2024_05_17''
         else if f = ''%Y-%m-%d'' then ''2024-05-17''
         else ''2024'')
      else if d = 739024 then
        (if f = ''%Y%m%d'' then ''20240518''
         else if f = ''%Y_%m_%d'' then ''2024_05_18''
         else if f = ''%Y-%m-%d'' then ''2024-05-18''
         else ''2024'')
      else
        (if f = ''%Y%m%d'' then ''20240519''
         else if f = ''%Y_%m_%d'' then ''2024_05_19''
         else if f = ''%Y-%m-%d'' then ''2024-05-19''
         else ''2024''))"

definition sample_glob :: "string \<Rightarrow> string list" where
  "sample_glob pattern =
     (if pattern = ''in/20240517/*.jpg''
      then [''in/20240517/0900.jpg'', ''in/20240517/0600.jpg'', ''in/20240517/2100.jpg'']
      else if pattern = ''in/20240518/*.jpg''
      then [''in/20240518/0800.jpg'', ''in/20240518/0700.jpg'']
      else [])"

definition sample_mtime :: "string \<Rightarrow> int" where
  "sample_mtime p =
     (if p = ''in/20240517/0600.jpg'' then 63851608800000000
      else if p = ''in/20240517/0900.jpg'' then 63851619600000000
      else if p = ''in/20240517/2100.jpg'' then 63851662800000000
      else if p = ''in/20240518/0700.jpg'' then 63851698800000000
      else 63851702400000000)"

definition sample_getmtime :: "string \<Rightarrow> exn + int" where
  "sample_getmtime p =
     (if p \<in> set [''in/20240517/0600.jpg'', ''in/20240517/0900.jpg'', ''in/20240517/2100.jpg'',
                  ''in/20240518/0700.jpg'', ''in/20240518/0800.jpg'']
      then Inr (sample_mtime p)
      else Inl (OSError ''[Errno 2] No such file or directory''))"

definition sample_world :: world where
  "sample_world =
     \<lparr>glob_w = sample_glob,
      getmtime_w = sample_getmtime,
      date_strftime_w = sample_strftime,
      date_str_w = (\<lambda>d. sample_strftime d ''%Y-%m-%d''),
      datetime_strftime_w = (\<lambda>t f. if t = 63851760000000000 then ''2024-05-19 00:00:00''
                                  else ''2024-05-19 00:00:02''),
      timedelta_str_w = (\<lambda>d. ''0:00:02''),
      now_start_w = 63851760000000000,
      now_end_w = 63851760002000000,
      mkdir_err_w = (\<lambda>p. None),
      open_err_w = (\<lambda>p. None),
      popen_w = (\<lambda>cmd. Inr [''frame=1\<newline>'', ''fps=0.0\<newline>'', ''frame=3\<newline>'',
                           ''progress=end\<newline>'']),
      getsize_w = (\<lambda>p. Inr 10485760),
      dirs_w = {},
      written_w = [],
      spawned_w = [],
      log_w = []\<rparr>"

text \<open>The same world on a machine where the encoder cannot be launched.\<close>

definition no_encoder_world :: world where
  "no_encoder_world =
     sample_world\<lparr>popen_w := (\<lambda>cmd. Inl (OSError ''[Errno 2] No such file or directory: ffmpeg''))\<rparr>"

text \<open>The sample configuration with an output folder whose name contains the extension.\<close>

definition dotted_folder_config :: config where
  "dotted_folder_config = sample_config\<lparr>video_output_folder := ''out.mp4s''\<rparr>"

text \<open>
  Configurations and worlds in which one step of the run fails: a morning time that does
  not parse, a manifest that cannot be opened, an output folder that cannot be created, a
  bit rate given as a number, an encoder that reports a frame that is no number, an output
  file that is missing after the encoding, and a sidecar that cannot be opened.
\<close>

definition bad_morning_config :: config where
  "bad_morning_config =
     sample_config\<lparr>image_input_morning_to_morning := True, image_input_morning_time := ''7h30''\<rparr>"

definition locked_manifest_world :: world where
  "locked_manifest_world =
     sample_world\<lparr>open_err_w :=
       (\<lambda>p. if p = ''ffmpeg_images.txt'' then Some (OSError ''[Errno 13] Permission denied'')
            else None)\<rparr>"

definition no_folder_world :: world where
  "no_folder_world =
     sample_world\<lparr>mkdir_err_w := (\<lambda>p. Some (OSError ''[Errno 30] Read-only file system''))\<rparr>"

definition int_bitrate_config :: config where
  "int_bitrate_config = sample_config\<lparr>video_output_max_bitrate := PInt 5000000\<rparr>"

definition garbled_progress_world :: world where
  "garbled_progress_world =
     sample_world\<lparr>popen_w := (\<lambda>cmd. Inr [''frame=1\<newline>'', ''frame=N/A\<newline>''])\<rparr>"

definition no_output_world :: world where
  "no_output_world =
     sample_world\<lparr>getsize_w := (\<lambda>p. Inl (OSError ''[Errno 2] No such file or directory''))\<rparr>"

definition locked_sidecar_world :: world where
  "locked_sidecar_world =
     sample_world\<lparr>open_err_w :=
       (\<lambda>p. if p = ''ffmpeg_images.txt'' then None
            else Some (OSError ''[Errno 13] Permission denied''))\<rparr>"

definition sample_images :: "string list" where
  "sample_images = [''in/20240517/0600.jpg'', ''in/20240517/0900.jpg'', ''in/20240517/2100.jpg'']"

definition sample_args :: "string list" where
  "sample_args =
     [''ffmpeg'', ''-y'', ''-loglevel'', ''error'', ''-hide_banner'',
      ''-f'', ''concat'', ''-safe'', ''0'', ''-i'', ''ffmpeg_images.txt'',
      ''-vf'', ''fps=25'', ''-c:v'', ''libx264'', ''-crf'', ''23'', ''-preset'', ''medium'',
      ''-b:v'', ''5M'', ''-minrate'', ''1M'', ''-maxrate'', ''5M'', ''-bufsize'', ''10M'',
      ''-s'', ''1920x1080'', ''-pix_fmt'', ''yuv420p'', ''-color_range'', ''tv'',
      ''out/2024/tl_2024_05_17.mp4'', ''-progress'', ''-'', ''-nostats'']"

section \<open>Properties of the naming and command builders\<close>

lemma replace_from_single:
  "replace_from [a] [b] s = map (\<lambda>c. if c = a then b else c) s"
  by (induction s) auto

lemma replace_single:
  "replace s [a] [b] = map (\<lambda>c. if c = a then b else c) s"
  by (simp add: replace_def replace_from_single)

lemma sanitize_for_filename_map:
  "sanitize_for_filename v =
     map (\<lambda>c. if c = CHR '' '' \<or> c = CHR '':'' \<or> c = CHR ''/'' then CHR ''_'' else c) (py_str v)"
  by (simp add: sanitize_for_filename_def replace_single)

text \<open>
  Claim C5. The qualifier appended to the base file name is made of the six settings
  filter graph, codec, constant rate factor, preset, maximal bit rate and frame size, in
  this order, joined by underscores; each value enters behind its label
  (\<open>filter-\<close>, \<open>codec-\<close>, \<open>crf-\<close>, \<open>preset-\<close>, \<open>bitrate-\<close>, \<open>size-\<close>) and is
  sanitized on its own: every blank, colon and slash of its text becomes an underscore and
  every other character stays. So \<open>1920x1080\<close> is unchanged and \<open>10:00\<close> becomes
  \<open>10_00\<close>. Without the switch the base name is returned as it is.
\<close>

theorem metadata_qualifier_fixed_order:
  "append_metadata_to_filename cfg base =
     (if filename_append_metadata cfg then
        base @ ''_'' @
          ''filter-'' @ sanitize_for_filename (video_output_video_filter cfg) @ ''_'' @
          ''codec-'' @ sanitize_for_filename (video_output_codec cfg) @ ''_'' @
          ''crf-'' @ sanitize_for_filename (video_output_crf cfg) @ ''_'' @
          ''preset-'' @ sanitize_for_filename (video_output_preset cfg) @ ''_'' @
          ''bitrate-'' @ sanitize_for_filename (video_output_max_bitrate cfg) @ ''_'' @
          ''size-'' @ sanitize_for_filename (video_output_video_size cfg)
      else base)
   \<and> sanitize_for_filename v =
       map (\<lambda>c. if c = CHR '' '' \<or> c = CHR '':'' \<or> c = CHR ''/'' then CHR ''_'' else c) (py_str v)
   \<and> sanitize_for_filename (PStr ''1920x1080'') = ''1920x1080''
   \<and> sanitize_for_filename (PStr ''10:00'') = ''10_00''"
  by (simp add: append_metadata_to_filename_def sanitize_for_filename_map)

text \<open>
  Claim C6. The argument list of the encoder is, in this order: the program name, the
  overwrite flag, the logging flags, the concat input mode on the manifest, the video
  filter, the codec, the constant rate factor (as text), the preset, the target bit rate
  (the configured maximum), the minimal and the maximal bit rate, the buffer size and the
  frame size; then, exactly when the codec is one of \<open>h264_v4l2m2m\<close>, \<open>libx264\<close>
  and \<open>libx265\<close>, the pixel format \<open>yuv420p\<close> and the limited colour range
  \<open>tv\<close>; and the output path last.
\<close>

theorem build_ffmpeg_command_fixed_order:
  "build_ffmpeg_command cfg image_list_file output_path =
     [PStr ''ffmpeg'', PStr ''-y'', PStr ''-loglevel'', PStr ''error'', PStr ''-hide_banner'',
      PStr ''-f'', PStr ''concat'', PStr ''-safe'', PStr ''0'', PStr ''-i'', PStr image_list_file,
      PStr ''-vf'', video_output_video_filter cfg,
      PStr ''-c:v'', video_output_codec cfg,
      PStr ''-crf'', PStr (py_str (video_output_crf cfg)),
      PStr ''-preset'', video_output_preset cfg,
      PStr ''-b:v'', video_output_max_bitrate cfg,
      PStr ''-minrate'', video_output_min_bitrate cfg,
      PStr ''-maxrate'', video_output_max_bitrate cfg,
      PStr ''-bufsize'', video_output_buffer_size cfg,
      PStr ''-s'', video_output_video_size cfg]
     @ (if video_output_codec cfg = PStr ''h264_v4l2m2m'' \<or> video_output_codec cfg = PStr ''libx264''
           \<or> video_output_codec cfg = PStr ''libx265''
        then [PStr ''-pix_fmt'', PStr ''yuv420p'', PStr ''-color_range'', PStr ''tv'']
        else [])
     @ [PStr output_path]
   \<and> last (build_ffmpeg_command cfg image_list_file output_path) = PStr output_path"
  by (simp add: build_ffmpeg_command_def Let_def)

section \<open>Properties of the progress monitor\<close>








section \<open>Properties of the run\<close>

lemma log_with_color_fields [simp]:
  "glob_w (log_with_color m l c w) = glob_w w"
  "getmtime_w (log_with_color m l c w) = getmtime_w w"
  "date_strftime_w (log_with_color m l c w) = date_strftime_w w"
  "date_str_w (log_with_color m l c w) = date_str_w w"
  "datetime_strftime_w (log_with_color m l c w) = datetime_strftime_w w"
  "timedelta_str_w (log_with_color m l c w) = timedelta_str_w w"
  "now_start_w (log_with_color m l c w) = now_start_w w"
  "now_end_w (log_with_color m l c w) = now_end_w w"
  "mkdir_err_w (log_with_color m l c w) = mkdir_err_w w"
  "open_err_w (log_with_color m l c w) = open_err_w w"
  "popen_w (log_with_color m l c w) = popen_w w"
  "getsize_w (log_with_color m l c w) = getsize_w w"
  "dirs_w (log_with_color m l c w) = dirs_w w"
  "written_w (log_with_color m l c w) = written_w w"
  "spawned_w (log_with_color m l c w) = spawned_w w"
  by (simp_all add: log_with_color_def)

lemma get_image_files_log [simp]:
  "get_image_files cfg (log_with_color m l c w) d = get_image_files cfg w d"
  by (simp add: get_image_files_def)

lemma filter_by_mtime_log [simp]:
  "filter_by_mtime keep (log_with_color m l c w) xs = filter_by_mtime keep w xs"
  by (induction xs) (simp_all split: sum.splits)

lemma select_images_log:
  "fst (select_images cfg date (log_with_color m l c w)) = fst (select_images cfg date w)"
  by (simp add: select_images_def Let_def split: sum.splits)

lemma select_images_effects:
  "written_w (snd (select_images cfg date w)) = written_w w
   \<and> spawned_w (snd (select_images cfg date w)) = spawned_w w
   \<and> dirs_w (snd (select_images cfg date w)) = dirs_w w
   \<and> date_str_w (snd (select_images cfg date w)) = date_str_w w"
  by (simp add: select_images_def Let_def split: sum.splits)

text \<open>
  Claim C9. Building the output path is repeatable: when it has returned a path, building
  it again in the world it left behind, where the output folder now exists, raises
  nothing, returns the same path and changes nothing.
\<close>

theorem build_output_path_idempotent:
  assumes "build_output_path cfg date w = (Inr p, w')"
  shows "build_output_path cfg date w' = (Inr p, w')"
  using assms
  by (auto simp: build_output_path_def makedirs_exist_ok_def Let_def
      split: if_splits option.splits)

theorem build_output_path_idempotent_witness:
  "build_output_path sample_config 739023 (snd (build_output_path sample_config 739023 sample_world))
     = (Inr ''out/2024/tl_2024_05_17.mp4'', snd (build_output_path sample_config 739023 sample_world))"
proof -
  have "fst (build_output_path sample_config 739023 sample_world) = Inr ''out/2024/tl_2024_05_17.mp4''"
    by code_simp
  then have h: "build_output_path sample_config 739023 sample_world =
      (Inr ''out/2024/tl_2024_05_17.mp4'', snd (build_output_path sample_config 739023 sample_world))"
    by (simp add: prod_eq_iff)
  show ?thesis
    by (rule build_output_path_idempotent [OF h])
qed

text \<open>
  Claim C2. When the selection for the date returns no image, the run writes no file (no
  manifest in particular), launches no command, creates no folder, and its last act is
  the report, at error level, that no images were found for the date.
\<close>

theorem no_images_no_manifest_no_encoder:
  assumes "fst (select_images cfg date w) = Inr []"
  shows "written_w (create_timelapse cfg date test_amount w) = written_w w
    \<and> spawned_w (create_timelapse cfg date test_amount w) = spawned_w w
    \<and> dirs_w (create_timelapse cfg date test_amount w) = dirs_w w
    \<and> last (log_w (create_timelapse cfg date test_amount w)) =
        (ERROR, ''red'', ''No images found for the selected date: '' @ date_str_w w date)"
proof -
  let ?w1 = "log_with_color (''Creating timelapse for date: '' @ date_str_w w date) ''info'' ''green'' w"
  obtain r w2 where sel: "select_images cfg date ?w1 = (r, w2)"
    by (cases "select_images cfg date ?w1")
  have r: "r = Inr []"
    using assms select_images_log [of cfg date _ _ _ w] sel by (metis fst_conv)
  have eff: "written_w w2 = written_w w" "spawned_w w2 = spawned_w w" "dirs_w w2 = dirs_w w"
    "date_str_w w2 = date_str_w w"
    using select_images_effects [of cfg date ?w1] sel by simp_all
  have "create_timelapse cfg date test_amount w =
      log_with_color (''No images found for the selected date: '' @ date_str_w w2 date) ''error'' ''red'' w2"
    using sel r by (simp add: create_timelapse_def create_timelapse_try_def)
  then show ?thesis
    using eff by (simp add: log_with_color_def)
qed

theorem no_images_no_manifest_no_encoder_witness:
  "written_w (create_timelapse sample_config 739025 None sample_world) = []
    \<and> spawned_w (create_timelapse sample_config 739025 None sample_world) = []
    \<and> dirs_w (create_timelapse sample_config 739025 None sample_world) = {}
    \<and> last (log_w (create_timelapse sample_config 739025 None sample_world)) =
        (ERROR, ''red'', ''No images found for the selected date: 2024-05-19'')"
proof -
  have h: "fst (select_images sample_config 739025 sample_world) = Inr []"
    by code_simp
  have d: "date_str_w sample_world 739025 = ''2024-05-19''"
    by code_simp
  show ?thesis
    using no_images_no_manifest_no_encoder [OF h, of None] d
    by (simp add: sample_world_def)
qed

lemma filter_by_mtime_filter:
  assumes "\<forall>p \<in> set xs. getmtime_w w p = Inr (mt p)"
  shows "filter_by_mtime keep w xs = Inr (filter (\<lambda>p. keep (mt p)) xs)"
  using assms by (induction xs) simp_all

lemma sorted_get_image_files: "sorted (get_image_files cfg w d)"
  by (simp add: get_image_files_def)

text \<open>
  Claim C3. With the morning-to-morning mode on (and a morning time that parses to \<open>t\<close>,
  a date before the last one, and files whose modification time \<open>mt\<close> can be read), the
  selection is the files of the date's folder modified at or after the date at the morning
  time, followed by the files of the next date's folder modified at or before the next
  date at the morning time; with the mode off it is the file list of the date's folder.
  The file list of a folder is the sorted answer of the glob, and each portion of the
  selection is sorted.
\<close>

theorem select_images_window:
  "(image_input_morning_to_morning cfg \<longrightarrow>
      strptime_HM (image_input_morning_time cfg) = Inr t \<longrightarrow>
      date < date_max \<longrightarrow>
      (\<forall>p \<in> set (get_image_files cfg w date) \<union> set (get_image_files cfg w (date + 1)).
          getmtime_w w p = Inr (mt p)) \<longrightarrow>
      fst (select_images cfg date w) =
        Inr (filter (\<lambda>p. date * usec_per_day + t \<le> mt p) (get_image_files cfg w date)
             @ filter (\<lambda>p. mt p \<le> (date + 1) * usec_per_day + t)
                 (get_image_files cfg w (date + 1))))
   \<and> (\<not> image_input_morning_to_morning cfg \<longrightarrow>
        fst (select_images cfg date w) = Inr (get_image_files cfg w date))
   \<and> get_image_files cfg w d =
       sort (glob_w w (path_join
              (path_join (image_input_folder cfg)
                 (date_strftime_w w d (image_input_folder_structure cfg)))
              (''*'' @ image_input_extension cfg)))
   \<and> sorted (filter (\<lambda>p. date * usec_per_day + t \<le> mt p) (get_image_files cfg w date))
   \<and> sorted (filter (\<lambda>p. mt p \<le> (date + 1) * usec_per_day + t)
                 (get_image_files cfg w (date + 1)))"
proof (intro conjI impI)
  assume m: "image_input_morning_to_morning cfg"
    and t: "strptime_HM (image_input_morning_time cfg) = Inr t"
    and d: "date < date_max"
    and mt: "\<forall>p \<in> set (get_image_files cfg w date) \<union> set (get_image_files cfg w (date + 1)).
          getmtime_w w p = Inr (mt p)"
  have today: "filter_by_mtime (\<lambda>u. date * usec_per_day + t \<le> u) w (get_image_files cfg w date)
      = Inr (filter (\<lambda>p. date * usec_per_day + t \<le> mt p) (get_image_files cfg w date))"
    using mt by (intro filter_by_mtime_filter) simp
  have tomorrow: "filter_by_mtime (\<lambda>u. u \<le> date * usec_per_day + t + usec_per_day) w
        (get_image_files cfg w (date + 1))
      = Inr (filter (\<lambda>p. mt p \<le> date * usec_per_day + t + usec_per_day)
           (get_image_files cfg w (date + 1)))"
    using mt by (intro filter_by_mtime_filter) simp
  have e: "date * usec_per_day + t + usec_per_day = (date + 1) * usec_per_day + t"
    by (simp add: algebra_simps)
  show "fst (select_images cfg date w) =
        Inr (filter (\<lambda>p. date * usec_per_day + t \<le> mt p) (get_image_files cfg w date)
             @ filter (\<lambda>p. mt p \<le> (date + 1) * usec_per_day + t)
                 (get_image_files cfg w (date + 1)))"
    using m t d today tomorrow by (simp add: select_images_def Let_def e)
next
  assume "\<not> image_input_morning_to_morning cfg"
  then show "fst (select_images cfg date w) = Inr (get_image_files cfg w date)"
    by (simp add: select_images_def)
next
  show "get_image_files cfg w d =
       sort (glob_w w (path_join
              (path_join (image_input_folder cfg)
                 (date_strftime_w w d (image_input_folder_structure cfg)))
              (''*'' @ image_input_extension cfg)))"
    by (simp add: get_image_files_def)
qed (simp_all add: sorted_get_image_files sorted_wrt_filter)

theorem select_images_window_witness:
  "fst (select_images (sample_config\<lparr>image_input_morning_to_morning := True\<rparr>) 739023 sample_world) =
     Inr [''in/20240517/0900.jpg'', ''in/20240517/2100.jpg'', ''in/20240518/0700.jpg'']
   \<and> fst (select_images sample_config 739023 sample_world) =
     Inr [''in/20240517/0600.jpg'', ''in/20240517/0900.jpg'', ''in/20240517/2100.jpg'']"
proof -
  let ?cfg = "sample_config\<lparr>image_input_morning_to_morning := True\<rparr>"
  have m: "image_input_morning_to_morning ?cfg" by simp
  have t: "strptime_HM (image_input_morning_time ?cfg) = Inr 27000000000" by code_simp
  have d: "(739023 :: int) < date_max" by (simp add: date_max_def)
  have today: "get_image_files ?cfg sample_world 739023 =
      [''in/20240517/0600.jpg'', ''in/20240517/0900.jpg'', ''in/20240517/2100.jpg'']"
    by code_simp
  have tomorrow: "get_image_files ?cfg sample_world (739023 + 1) =
      [''in/20240518/0700.jpg'', ''in/20240518/0800.jpg'']"
    by code_simp
  have mt: "\<forall>p \<in> set (get_image_files ?cfg sample_world 739023)
                \<union> set (get_image_files ?cfg sample_world (739023 + 1)).
              getmtime_w sample_world p = Inr (sample_mtime p)"
    unfolding today tomorrow by (simp add: sample_world_def sample_getmtime_def)
  have "fst (select_images ?cfg 739023 sample_world) =
        Inr (filter (\<lambda>p. 739023 * usec_per_day + 27000000000 \<le> sample_mtime p)
               (get_image_files ?cfg sample_world 739023)
             @ filter (\<lambda>p. sample_mtime p \<le> (739023 + 1) * usec_per_day + 27000000000)
                 (get_image_files ?cfg sample_world (739023 + 1)))"
    using select_images_window [of ?cfg 27000000000 739023 sample_world sample_mtime 0] m t d mt
    by blast
  then have on: "fst (select_images ?cfg 739023 sample_world) =
     Inr [''in/20240517/0900.jpg'', ''in/20240517/2100.jpg'', ''in/20240518/0700.jpg'']"
    unfolding today tomorrow by (simp add: usec_per_day_def sample_mtime_def)
  have off: "\<not> image_input_morning_to_morning sample_config"
    by (simp add: sample_config_def)
  have today': "get_image_files sample_config sample_world 739023 =
      [''in/20240517/0600.jpg'', ''in/20240517/0900.jpg'', ''in/20240517/2100.jpg'']"
    by code_simp
  have "fst (select_images sample_config 739023 sample_world) =
      Inr (get_image_files sample_config sample_world 739023)"
    using select_images_window [of sample_config 0 739023 sample_world sample_mtime 0] off
    by blast
  with on today' show ?thesis by simp
qed

lemma limit_images_zero: "limit_images (Some 0) = limit_images None"
  by (simp add: limit_images_def truthy_def fun_eq_iff)

lemma metadata_of_zero: "metadata_of cfg w date (Some 0) = metadata_of cfg w date None"
  by (simp add: metadata_of_def truthy_def fun_eq_iff)

lemma encode_selected_zero:
  "encode_selected cfg date (Some 0) start_time images w =
   encode_selected cfg date None start_time images w"
  unfolding encode_selected_def limit_images_zero metadata_of_zero by (rule refl)

text \<open>
  Claim C10. A test amount of 0 is treated as an absent one: the whole run is the run
  without a test amount, the selected images are not truncated, and the metadata record
  \<open>test_amount\<close> as the string \<open>full\<close>.
\<close>

theorem zero_test_amount_is_absent:
  "create_timelapse cfg date (Some 0) w = create_timelapse cfg date None w
   \<and> limit_images (Some 0) images w = (images, w)
   \<and> map_of (metadata_of cfg w date (Some 0) output_path file_size start_time end_time images)
        ''test_amount'' = Some (PStr ''full'')"
  unfolding create_timelapse_def create_timelapse_try_def encode_selected_zero
  by (simp add: limit_images_def metadata_of_def truthy_def)

lemma limit_images_env [simp]:
  "open_err_w (snd (limit_images ta images w)) = open_err_w w"
  "written_w (snd (limit_images ta images w)) = written_w w"
  "spawned_w (snd (limit_images ta images w)) = spawned_w w"
  by (simp_all add: limit_images_def)

lemma create_ffmpeg_file_list_step:
  assumes "create_ffmpeg_file_list images w = (r, w')"
  shows "spawned_w w' = spawned_w w"
    and "r = Inr f \<Longrightarrow> written_w w' = written_w w @
          [(''ffmpeg_images.txt'',
            Text (concat (map (\<lambda>image. ''file '' @ [CHR 0x27] @ image @ [CHR 0x27, CHR 0x0A]) images)))]"
    and "open_err_w w ''ffmpeg_images.txt'' = None \<Longrightarrow> \<exists>f. r = Inr f"
  using assms
  by (auto simp: create_ffmpeg_file_list_def open_write_def Let_def split: option.splits)

lemma build_output_path_step:
  assumes "build_output_path cfg date w = (r, w')"
  shows "spawned_w w' = spawned_w w" and "written_w w' = written_w w"
  using assms
  by (auto simp: build_output_path_def makedirs_exist_ok_def Let_def split: option.splits if_splits)

lemma popen_step:
  assumes "popen cmd w = (r, w')"
  shows "length (spawned_w w') \<le> Suc (length (spawned_w w))" and "written_w w' = written_w w"
  using assms by (auto simp: popen_def split: sum.splits)

lemma save_metadata_to_json_step:
  assumes "save_metadata_to_json cfg output_path md w = (r, w')"
  shows "spawned_w w' = spawned_w w" and "prefix (written_w w) (written_w w')"
  using assms
  by (auto simp: save_metadata_to_json_def open_write_def Let_def split: option.splits)

lemma limit_images_step:
  assumes "limit_images ta images w = (r, w')"
  shows "spawned_w w' = spawned_w w" and "written_w w' = written_w w"
    and "open_err_w w' = open_err_w w" and "r = fst (limit_images ta images w)"
  using assms by (auto simp: limit_images_def split: if_splits)

lemma encode_selected_spawned:
  "length (spawned_w (snd (encode_selected cfg date ta st images w))) \<le> Suc (length (spawned_w w))"
  by (auto simp: encode_selected_def Let_def split: prod.splits sum.splits
      dest!: limit_images_step(1) create_ffmpeg_file_list_step(1) build_output_path_step(1)
        popen_step(1) save_metadata_to_json_step(1))

lemma limit_images_written:
  assumes "limit_images ta images w = (r, w')"
  shows "written_w w' = written_w w \<and> open_err_w w' = open_err_w w
         \<and> r = fst (limit_images ta images w)"
  using assms by (auto simp: limit_images_def split: if_splits)

lemma create_ffmpeg_file_list_written:
  assumes "create_ffmpeg_file_list images w = (r, w')"
  shows "(open_err_w w ''ffmpeg_images.txt'' = None \<longrightarrow> (\<exists>f. r = Inr f))
    \<and> ((\<exists>f. r = Inr f) \<longrightarrow> written_w w' = written_w w @
          [(''ffmpeg_images.txt'',
            Text (concat (map (\<lambda>image. ''file '' @ [CHR 0x27] @ image @ [CHR 0x27, CHR 0x0A]) images)))])"
  using assms
  by (auto simp: create_ffmpeg_file_list_def open_write_def Let_def split: option.splits)

lemma encode_selected_written:
  assumes "open_err_w w ''ffmpeg_images.txt'' = None"
  shows "prefix
     (written_w w @
       [(''ffmpeg_images.txt'',
         Text (concat (map (\<lambda>image. ''file '' @ [CHR 0x27] @ image @ [CHR 0x27, CHR 0x0A])
                (fst (limit_images ta images w)))))])
     (written_w (snd (encode_selected cfg date ta st images w)))"
  using assms
  by (auto simp: encode_selected_def Let_def split: prod.splits sum.splits
      dest!: limit_images_written create_ffmpeg_file_list_written build_output_path_step(2)
        popen_step(2) save_metadata_to_json_step(2))

lemma select_images_open_err:
  "open_err_w (snd (select_images cfg date w)) = open_err_w w"
  by (simp add: select_images_def Let_def split: sum.splits)

text \<open>
  Claim C4. When the selection is not empty and a test amount \<open>k\<close> with
  \<open>0 < k < length\<close> is given, the images used for the run are the first \<open>k\<close> of
  the selection, in their order: the limit step returns them, and (the manifest being
  writable) the manifest that the run writes first lists exactly them.
\<close>

theorem test_limit_uses_first_k:
  assumes "fst (select_images cfg date w) = Inr images"
    and "0 < k" and "k < int (length images)"
    and "open_err_w w ''ffmpeg_images.txt'' = None"
  shows "fst (limit_images (Some k) images w') = take (nat k) images
    \<and> prefix
        (written_w w @
          [(''ffmpeg_images.txt'',
            Text (concat (map (\<lambda>image. ''file '' @ [CHR 0x27] @ image @ [CHR 0x27, CHR 0x0A])
                   (take (nat k) images))))])
        (written_w (create_timelapse cfg date (Some k) w))"
proof
  show lim: "fst (limit_images (Some k) images w') = take (nat k) images" for w'
    using assms(2) by (simp add: limit_images_def truthy_def slice_to_def)
  let ?w1 = "log_with_color (''Creating timelapse for date: '' @ date_str_w w date) ''info'' ''green'' w"
  obtain r w2 where sel: "select_images cfg date ?w1 = (r, w2)"
    by (cases "select_images cfg date ?w1")
  have r: "r = Inr images"
    using assms(1) select_images_log [of cfg date _ _ _ w] sel by (metis fst_conv)
  have ne: "images \<noteq> []"
    using assms(2,3) by auto
  have wr: "written_w w2 = written_w w"
    using select_images_effects [of cfg date ?w1] sel by simp
  have op: "open_err_w w2 ''ffmpeg_images.txt'' = None"
    using select_images_open_err [of cfg date ?w1] sel assms(4) by simp
  obtain res w3 where enc: "encode_selected cfg date (Some k) (now_start_w w) images w2 = (res, w3)"
    by (cases "encode_selected cfg date (Some k) (now_start_w w) images w2")
  have w3: "prefix
        (written_w w @
          [(''ffmpeg_images.txt'',
            Text (concat (map (\<lambda>image. ''file '' @ [CHR 0x27] @ image @ [CHR 0x27, CHR 0x0A])
                   (take (nat k) images))))])
        (written_w w3)"
    using encode_selected_written [OF op, of "Some k" images cfg date "now_start_w w"] enc
    by (simp add: lim wr)
  have "written_w (create_timelapse cfg date (Some k) w) = written_w w3"
    using sel r ne enc
    by (cases res) (simp_all add: create_timelapse_def create_timelapse_try_def)
  with w3 show "prefix
        (written_w w @
          [(''ffmpeg_images.txt'',
            Text (concat (map (\<lambda>image. ''file '' @ [CHR 0x27] @ image @ [CHR 0x27, CHR 0x0A])
                   (take (nat k) images))))])
        (written_w (create_timelapse cfg date (Some k) w))"
    by simp
qed

lemma create_timelapse_try_spawned:
  "length (spawned_w (snd (create_timelapse_try cfg date ta w))) \<le> Suc (length (spawned_w w))"
proof -
  let ?w1 = "log_with_color (''Creating timelapse for date: '' @ date_str_w w date) ''info'' ''green'' w"
  obtain r w2 where sel: "select_images cfg date ?w1 = (r, w2)"
    by (cases "select_images cfg date ?w1")
  have sp: "spawned_w w2 = spawned_w w"
    using select_images_effects [of cfg date ?w1] sel by simp
  show ?thesis
    using sel sp encode_selected_spawned [of cfg date ta "now_start_w w" _ w2]
    by (cases r) (simp_all add: create_timelapse_try_def)
qed

lemma create_timelapse_handler:
  assumes "fst (create_timelapse_try cfg date test_amount w) = Some e"
  shows "create_timelapse cfg date test_amount w =
      log_with_color (''Error creating timelapse: '' @ str_exn e) ''error'' ''red''
        (snd (create_timelapse_try cfg date test_amount w))
    \<and> last (log_w (create_timelapse cfg date test_amount w)) =
        (ERROR, ''red'', ''Error creating timelapse: '' @ str_exn e)
    \<and> length (spawned_w (create_timelapse cfg date test_amount w)) \<le> Suc (length (spawned_w w))"
proof -
  have eq: "create_timelapse cfg date test_amount w =
      log_with_color (''Error creating timelapse: '' @ str_exn e) ''error'' ''red''
        (snd (create_timelapse_try cfg date test_amount w))"
    using assms
    by (cases "create_timelapse_try cfg date test_amount w") (simp add: create_timelapse_def)
  moreover have "last (log_w (create_timelapse cfg date test_amount w)) =
        (ERROR, ''red'', ''Error creating timelapse: '' @ str_exn e)"
    unfolding eq by (simp add: log_with_color_def)
  moreover have "length (spawned_w (create_timelapse cfg date test_amount w))
      \<le> Suc (length (spawned_w w))"
    unfolding eq using create_timelapse_try_spawned [of cfg date test_amount w] by simp
  ultimately show ?thesis by blast
qed

theorem test_limit_uses_first_k_witness:
  "fst (limit_images (Some 2)
         [''in/20240517/0600.jpg'', ''in/20240517/0900.jpg'', ''in/20240517/2100.jpg''] sample_world)
     = take (nat 2) [''in/20240517/0600.jpg'', ''in/20240517/0900.jpg'', ''in/20240517/2100.jpg'']
   \<and> prefix
        (written_w sample_world @
          [(''ffmpeg_images.txt'',
            Text (concat (map (\<lambda>image. ''file '' @ [CHR 0x27] @ image @ [CHR 0x27, CHR 0x0A])
                   (take (nat 2)
                     [''in/20240517/0600.jpg'', ''in/20240517/0900.jpg'', ''in/20240517/2100.jpg'']))))])
        (written_w (create_timelapse sample_config 739023 (Some 2) sample_world))"
proof -
  have h1: "fst (select_images sample_config 739023 sample_world) =
      Inr [''in/20240517/0600.jpg'', ''in/20240517/0900.jpg'', ''in/20240517/2100.jpg'']"
    by code_simp
  have h2: "(0 :: int) < 2" by simp
  have h3: "(2 :: int) <
      int (length [''in/20240517/0600.jpg'', ''in/20240517/0900.jpg'', ''in/20240517/2100.jpg''])"
    by simp
  have h4: "open_err_w sample_world ''ffmpeg_images.txt'' = None"
    by (simp add: sample_world_def)
  show ?thesis
    by (rule test_limit_uses_first_k [OF h1 h2 h3 h4])
qed


lemma metadata_of_fields:
  "map_of (metadata_of cfg w date test_amount output_path file_size start_time end_time images)
     ''number_of_images'' = Some (PInt (int (length images)))
   \<and> map_of (metadata_of cfg w date test_amount output_path file_size start_time end_time images)
     ''file_size_MB'' = Some (PStr (format_2f_mb file_size))
   \<and> map_of (metadata_of cfg w date None output_path file_size start_time end_time images)
     ''test_amount'' = Some (PStr ''full'')
   \<and> format_2f_mb 10485760 = ''10.00''"
  by (simp add: metadata_of_def truthy_def, code_simp)

text \<open>
  Claim C8, at an input where the code departs from it. The metadata record the number of
  images, the size in megabytes with two decimals and \<open>full\<close> for an absent test amount
  (lemma \<open>metadata_of_fields\<close>), but the name of the sidecar is made by replacing every
  occurrence of the extension in the output path, not only the one at its end: with the
  output folder \<open>out.mp4s\<close> the video goes to \<open>out.mp4s/2024/tl_2024_05_17.mp4\<close> and the
  sidecar is opened as \<open>out.jsons/2024/tl_2024_05_17.json\<close>.
\<close>

theorem sidecar_path_replaces_every_occurrence:
  "fst (build_output_path dotted_folder_config 739023 sample_world)
     = Inr ''out.mp4s/2024/tl_2024_05_17.mp4''
   \<and> map fst (written_w (create_timelapse dotted_folder_config 739023 None sample_world))
     = [''ffmpeg_images.txt'', ''out.jsons/2024/tl_2024_05_17.json'']
   \<and> map fst (written_w (create_timelapse dotted_folder_config 739023 None sample_world))
     \<noteq> [''ffmpeg_images.txt'', ''out.mp4s/2024/tl_2024_05_17.json'']"
  by code_simp

lemma select_images_reads [simp]:
  "open_err_w (snd (select_images cfg date w)) = open_err_w w"
  "mkdir_err_w (snd (select_images cfg date w)) = mkdir_err_w w"
  "date_strftime_w (snd (select_images cfg date w)) = date_strftime_w w"
  "popen_w (snd (select_images cfg date w)) = popen_w w"
  "getsize_w (snd (select_images cfg date w)) = getsize_w w"
  "dirs_w (snd (select_images cfg date w)) = dirs_w w"
  by (simp_all add: select_images_def Let_def split: sum.splits)

lemma limit_images_reads [simp]:
  "mkdir_err_w (snd (limit_images ta images w)) = mkdir_err_w w"
  "date_strftime_w (snd (limit_images ta images w)) = date_strftime_w w"
  "popen_w (snd (limit_images ta images w)) = popen_w w"
  "getsize_w (snd (limit_images ta images w)) = getsize_w w"
  "dirs_w (snd (limit_images ta images w)) = dirs_w w"
  by (simp_all add: limit_images_def)

lemma limit_images_fst:
  "fst (limit_images ta images w') = fst (limit_images ta images w)"
  by (simp add: limit_images_def)

lemma create_ffmpeg_file_list_reads [simp]:
  "open_err_w (snd (create_ffmpeg_file_list images w)) = open_err_w w"
  "mkdir_err_w (snd (create_ffmpeg_file_list images w)) = mkdir_err_w w"
  "date_strftime_w (snd (create_ffmpeg_file_list images w)) = date_strftime_w w"
  "popen_w (snd (create_ffmpeg_file_list images w)) = popen_w w"
  "getsize_w (snd (create_ffmpeg_file_list images w)) = getsize_w w"
  "dirs_w (snd (create_ffmpeg_file_list images w)) = dirs_w w"
  by (simp_all add: create_ffmpeg_file_list_def open_write_def Let_def split: option.splits)

lemma build_output_path_reads [simp]:
  "open_err_w (snd (build_output_path cfg date w)) = open_err_w w"
  "popen_w (snd (build_output_path cfg date w)) = popen_w w"
  "getsize_w (snd (build_output_path cfg date w)) = getsize_w w"
  by (simp_all add: build_output_path_def makedirs_exist_ok_def Let_def split: option.splits)

lemma popen_reads [simp]:
  "open_err_w (snd (popen cmd w)) = open_err_w w"
  "getsize_w (snd (popen cmd w)) = getsize_w w"
  by (simp_all add: popen_def split: sum.splits)

lemma create_ffmpeg_file_list_fst:
  assumes "open_err_w w' = open_err_w w"
  shows "fst (create_ffmpeg_file_list images w') = fst (create_ffmpeg_file_list images w)"
  using assms
  by (simp add: create_ffmpeg_file_list_def open_write_def Let_def split: option.splits)

lemma build_output_path_fst:
  assumes "dirs_w w' = dirs_w w" and "mkdir_err_w w' = mkdir_err_w w"
    and "date_strftime_w w' = date_strftime_w w"
  shows "fst (build_output_path cfg date w') = fst (build_output_path cfg date w)"
  using assms
  by (simp add: build_output_path_def makedirs_exist_ok_def Let_def split: option.splits)

lemma popen_fst:
  assumes "popen_w w' = popen_w w"
  shows "fst (popen cmd w') = fst (popen cmd w)"
  using assms by (simp add: popen_def split: sum.splits)

lemma save_metadata_to_json_fst:
  assumes "open_err_w w' = open_err_w w"
  shows "fst (save_metadata_to_json cfg p md' w') = fst (save_metadata_to_json cfg p md w)"
  using assms
  by (simp add: save_metadata_to_json_def open_write_def Let_def split: option.splits)

lemma stage_manifest:
  "fst (create_ffmpeg_file_list imgs (snd (limit_images ta images w)))
     = fst (create_ffmpeg_file_list imgs w)"
  by (rule create_ffmpeg_file_list_fst) simp

lemma stage_output_path:
  "fst (build_output_path cfg date
          (snd (create_ffmpeg_file_list imgs (snd (limit_images ta images w)))))
     = fst (build_output_path cfg date w)"
  by (rule build_output_path_fst) simp_all

lemma stage_launch:
  "fst (popen cmd (log_with_color m l c
          (snd (build_output_path cfg date
             (snd (create_ffmpeg_file_list imgs (snd (limit_images ta images w))))))))
     = fst (popen cmd w)"
  by (rule popen_fst) simp

lemma stage_size:
  "getsize_w (snd (popen cmd (log_with_color m l c
          (snd (build_output_path cfg date
             (snd (create_ffmpeg_file_list imgs (snd (limit_images ta images w))))))))) p
     = getsize_w w p"
  by simp

lemma stage_sidecar:
  "fst (save_metadata_to_json cfg p md'
         (log_with_color m3 l3 c3 (log_with_color m2 l2 c2 (log_with_color m1 l1 c1
           (snd (popen cmd (log_with_color m l c
              (snd (build_output_path cfg date
                 (snd (create_ffmpeg_file_list imgs (snd (limit_images ta images w)))))))))))))
     = fst (save_metadata_to_json cfg p md w)"
  by (rule save_metadata_to_json_fst) simp

lemma encode_selected_outcome:
  "fst (encode_selected cfg date ta st images0 w) =
    (case fst (create_ffmpeg_file_list (fst (limit_images ta images0 w)) w) of
       Inl e \<Rightarrow> Some e
     | Inr f \<Rightarrow>
    (case fst (build_output_path cfg date w) of
       Inl e \<Rightarrow> Some e
     | Inr p \<Rightarrow>
    (case str_items 0 (build_ffmpeg_command cfg f p
                         @ [PStr ''-progress'', PStr ''-'', PStr ''-nostats'']) of
       Inl e \<Rightarrow> Some e
     | Inr cmd \<Rightarrow>
    (case fst (popen cmd w) of
       Inl e \<Rightarrow> Some e
     | Inr out \<Rightarrow>
    (case parse_ffmpeg_progress out (length (fst (limit_images ta images0 w))) of
       Inl e \<Rightarrow> Some e
     | Inr n \<Rightarrow>
    (case getsize_w w p of
       Inl e \<Rightarrow> Some e
     | Inr file_size \<Rightarrow>
         if metadata_save_to_file cfg then
           (case fst (save_metadata_to_json cfg p md w) of
              Inl e \<Rightarrow> Some e
            | Inr u \<Rightarrow> None)
         else None))))))"
  unfolding encode_selected_def split_beta Let_def stage_manifest stage_output_path stage_launch
    stage_size stage_sidecar [where md = md]
  by (auto split: sum.splits)

lemma encode_selected_fst:
  assumes a1: "open_err_w w' = open_err_w w" and a2: "dirs_w w' = dirs_w w"
    and a3: "mkdir_err_w w' = mkdir_err_w w" and a4: "date_strftime_w w' = date_strftime_w w"
    and a5: "popen_w w' = popen_w w" and a6: "getsize_w w' = getsize_w w"
  shows "fst (encode_selected cfg date ta st images w') = fst (encode_selected cfg date ta st images w)"
  unfolding encode_selected_outcome [where md = "[]"]
    create_ffmpeg_file_list_fst [OF a1] build_output_path_fst [OF a2 a3 a4] popen_fst [OF a5]
    save_metadata_to_json_fst [OF a1, where md = "[]"] limit_images_fst [of ta images w' w] a6
  by (rule refl)

lemma create_timelapse_try_outcome:
  "fst (create_timelapse_try cfg date ta w) =
     (case fst (select_images cfg date w) of
        Inl e \<Rightarrow> Some e
      | Inr images \<Rightarrow>
          if images = [] then None
          else fst (encode_selected cfg date ta (now_start_w w) images w))"
proof -
  let ?w1 = "log_with_color (''Creating timelapse for date: '' @ date_str_w w date) ''info'' ''green'' w"
  have f: "fst (select_images cfg date ?w1) = fst (select_images cfg date w)"
    by (rule select_images_log)
  have e: "fst (encode_selected cfg date ta st images
                 (snd (select_images cfg date (log_with_color m l c w))))
      = fst (encode_selected cfg date ta st images w)" for images st m l c
    by (rule encode_selected_fst) simp_all
  show ?thesis
    unfolding create_timelapse_try_def Let_def split_beta f
    by (auto split: sum.splits simp: e)
qed

text \<open>
  Claim C7. Every exception of a run ends at the one handler of \<open>create_timelapse\<close>.
  Whenever the body ends with an exception, the run returns normally: its result is the
  world at the point of the exception with one more log entry, at error level, that
  carries the text of the exception. Nothing is retried: a run launches at most one
  command. And every step of the run is covered. If the selection raises, or (the
  selection being non-empty) the writing of the manifest, or then the creation of the
  output folder, or then the joining of the command for the log, or then the launch of the
  encoder, or then the reading of its progress, or then the reading of the size of the
  output, or then (when metadata are saved) the writing of the sidecar, the last log entry
  of the run is the error entry with the text of that exception.
\<close>

theorem every_stage_exception_logged:
  "(fst (create_timelapse_try cfg date test_amount w) = Some e \<longrightarrow>
      create_timelapse cfg date test_amount w =
        log_with_color (''Error creating timelapse: '' @ str_exn e) ''error'' ''red''
          (snd (create_timelapse_try cfg date test_amount w))
      \<and> last (log_w (create_timelapse cfg date test_amount w)) =
          (ERROR, ''red'', ''Error creating timelapse: '' @ str_exn e))
   \<and> length (spawned_w (create_timelapse cfg date test_amount w)) \<le> Suc (length (spawned_w w))
   \<and> (fst (select_images cfg date w) = Inl e \<longrightarrow>
        last (log_w (create_timelapse cfg date test_amount w)) =
          (ERROR, ''red'', ''Error creating timelapse: '' @ str_exn e))
   \<and> (fst (select_images cfg date w) = Inr images \<and> images \<noteq> [] \<longrightarrow>
       (fst (create_ffmpeg_file_list (fst (limit_images test_amount images w)) w) = Inl e \<longrightarrow>
          last (log_w (create_timelapse cfg date test_amount w)) =
            (ERROR, ''red'', ''Error creating timelapse: '' @ str_exn e))
     \<and> (fst (create_ffmpeg_file_list (fst (limit_images test_amount images w)) w) = Inr f \<longrightarrow>
       (fst (build_output_path cfg date w) = Inl e \<longrightarrow>
          last (log_w (create_timelapse cfg date test_amount w)) =
            (ERROR, ''red'', ''Error creating timelapse: '' @ str_exn e))
     \<and> (fst (build_output_path cfg date w) = Inr p \<longrightarrow>
       (str_items 0 (build_ffmpeg_command cfg f p
                       @ [PStr ''-progress'', PStr ''-'', PStr ''-nostats'']) = Inl e \<longrightarrow>
          last (log_w (create_timelapse cfg date test_amount w)) =
            (ERROR, ''red'', ''Error creating timelapse: '' @ str_exn e))
     \<and> (str_items 0 (build_ffmpeg_command cfg f p
                       @ [PStr ''-progress'', PStr ''-'', PStr ''-nostats'']) = Inr cmd \<longrightarrow>
       (fst (popen cmd w) = Inl e \<longrightarrow>
          last (log_w (create_timelapse cfg date test_amount w)) =
            (ERROR, ''red'', ''Error creating timelapse: '' @ str_exn e))
     \<and> (fst (popen cmd w) = Inr out \<longrightarrow>
       (parse_ffmpeg_progress out (length (fst (limit_images test_amount images w))) = Inl e \<longrightarrow>
          last (log_w (create_timelapse cfg date test_amount w)) =
            (ERROR, ''red'', ''Error creating timelapse: '' @ str_exn e))
     \<and> (parse_ffmpeg_progress out (length (fst (limit_images test_amount images w))) = Inr n \<longrightarrow>
       (getsize_w w p = Inl e \<longrightarrow>
          last (log_w (create_timelapse cfg date test_amount w)) =
            (ERROR, ''red'', ''Error creating timelapse: '' @ str_exn e))
     \<and> (getsize_w w p = Inr file_size \<longrightarrow> metadata_save_to_file cfg \<longrightarrow>
        fst (save_metadata_to_json cfg p md w) = Inl e \<longrightarrow>
          last (log_w (create_timelapse cfg date test_amount w)) =
            (ERROR, ''red'', ''Error creating timelapse: '' @ str_exn e))))))))"
proof -
  have outcome: "fst (create_timelapse_try cfg date test_amount w) =
     (case fst (select_images cfg date w) of
        Inl e \<Rightarrow> Some e
      | Inr images \<Rightarrow>
          if images = [] then None
          else fst (encode_selected cfg date test_amount (now_start_w w) images w))"
    by (rule create_timelapse_try_outcome)
  note stages = encode_selected_outcome [where md = md]
  have logged: "last (log_w (create_timelapse cfg date test_amount w)) =
      (ERROR, ''red'', ''Error creating timelapse: '' @ str_exn e)"
    if "fst (create_timelapse_try cfg date test_amount w) = Some e"
    using create_timelapse_handler [OF that] by blast
  show ?thesis
  proof (intro conjI impI)
    assume "fst (create_timelapse_try cfg date test_amount w) = Some e"
    then show "create_timelapse cfg date test_amount w =
        log_with_color (''Error creating timelapse: '' @ str_exn e) ''error'' ''red''
          (snd (create_timelapse_try cfg date test_amount w))"
      using create_timelapse_handler by blast
  next
    show "length (spawned_w (create_timelapse cfg date test_amount w)) \<le> Suc (length (spawned_w w))"
      by (cases "create_timelapse_try cfg date test_amount w")
        (use create_timelapse_try_spawned [of cfg date test_amount w] in
          \<open>auto simp: create_timelapse_def split: option.splits\<close>)
  qed (rule logged, simp add: outcome stages)+
qed

theorem every_stage_exception_logged_witness:
  "last (log_w (create_timelapse bad_morning_config 739023 None sample_world)) =
      (ERROR, ''red'', ''Error creating timelapse: '' @ str_exn (ValueError (''time data '' @ [CHR 0x27] @ ''7h30'' @ [CHR 0x27] @ '' does not match format '' @ [CHR 0x27] @ ''%H:%M'' @ [CHR 0x27])))
   \<and> last (log_w (create_timelapse sample_config 739023 None locked_manifest_world)) =
      (ERROR, ''red'', ''Error creating timelapse: '' @ str_exn (OSError ''[Errno 13] Permission denied''))
   \<and> last (log_w (create_timelapse sample_config 739023 None no_folder_world)) =
      (ERROR, ''red'', ''Error creating timelapse: '' @ str_exn (OSError ''[Errno 30] Read-only file system''))
   \<and> last (log_w (create_timelapse int_bitrate_config 739023 None sample_world)) =
      (ERROR, ''red'', ''Error creating timelapse: '' @ str_exn (TypeError ''sequence item 20: expected str instance, int found''))
   \<and> last (log_w (create_timelapse sample_config 739023 None no_encoder_world)) =
      (ERROR, ''red'', ''Error creating timelapse: '' @ str_exn (OSError ''[Errno 2] No such file or directory: ffmpeg''))
   \<and> last (log_w (create_timelapse sample_config 739023 None garbled_progress_world)) =
      (ERROR, ''red'', ''Error creating timelapse: '' @ str_exn (ValueError (''invalid literal for int() with base 10: '' @ [CHR 0x27] @ ''N/A'' @ [CHR 0x27])))
   \<and> last (log_w (create_timelapse sample_config 739023 None no_output_world)) =
      (ERROR, ''red'', ''Error creating timelapse: '' @ str_exn (OSError ''[Errno 2] No such file or directory''))
   \<and> last (log_w (create_timelapse sample_config 739023 None locked_sidecar_world)) =
      (ERROR, ''red'', ''Error creating timelapse: '' @ str_exn (OSError ''[Errno 13] Permission denied''))"
proof -
  have sel_facts:
    "fst (select_images bad_morning_config 739023 sample_world) = Inl (ValueError (''time data '' @ [CHR 0x27] @ ''7h30'' @ [CHR 0x27] @ '' does not match format '' @ [CHR 0x27] @ ''%H:%M'' @ [CHR 0x27]))"
    by code_simp+
  have sel: "last (log_w (create_timelapse bad_morning_config 739023 None sample_world)) =
      (ERROR, ''red'', ''Error creating timelapse: '' @ str_exn (ValueError (''time data '' @ [CHR 0x27] @ ''7h30'' @ [CHR 0x27] @ '' does not match format '' @ [CHR 0x27] @ ''%H:%M'' @ [CHR 0x27])))"
    using every_stage_exception_logged
      [where cfg = bad_morning_config
         and date = 739023
         and test_amount = None
         and w = sample_world
         and e = "ValueError (''time data '' @ [CHR 0x27] @ ''7h30'' @ [CHR 0x27] @ '' does not match format '' @ [CHR 0x27] @ ''%H:%M'' @ [CHR 0x27])"]
      sel_facts
    by blast
  have man_facts:
    "fst (select_images sample_config 739023 locked_manifest_world) = Inr sample_images \<and> sample_images \<noteq> []"
    "fst (create_ffmpeg_file_list (fst (limit_images None sample_images locked_manifest_world)) locked_manifest_world) = Inl (OSError ''[Errno 13] Permission denied'')"
    by code_simp+
  have man: "last (log_w (create_timelapse sample_config 739023 None locked_manifest_world)) =
      (ERROR, ''red'', ''Error creating timelapse: '' @ str_exn (OSError ''[Errno 13] Permission denied''))"
    using every_stage_exception_logged
      [where cfg = sample_config
         and date = 739023
         and test_amount = None
         and w = locked_manifest_world
         and e = "OSError ''[Errno 13] Permission denied''"
         and images = sample_images]
      man_facts
    by blast
  have dir_facts:
    "fst (select_images sample_config 739023 no_folder_world) = Inr sample_images \<and> sample_images \<noteq> []"
    "fst (create_ffmpeg_file_list (fst (limit_images None sample_images no_folder_world)) no_folder_world) = Inr ''ffmpeg_images.txt''"
    "fst (build_output_path sample_config 739023 no_folder_world) = Inl (OSError ''[Errno 30] Read-only file system'')"
    by code_simp+
  have dir: "last (log_w (create_timelapse sample_config 739023 None no_folder_world)) =
      (ERROR, ''red'', ''Error creating timelapse: '' @ str_exn (OSError ''[Errno 30] Read-only file system''))"
    using every_stage_exception_logged
      [where cfg = sample_config
         and date = 739023
         and test_amount = None
         and w = no_folder_world
         and e = "OSError ''[Errno 30] Read-only file system''"
         and images = sample_images
         and f = "''ffmpeg_images.txt''"]
      dir_facts
    by blast
  have join_facts:
    "fst (select_images int_bitrate_config 739023 sample_world) = Inr sample_images \<and> sample_images \<noteq> []"
    "fst (create_ffmpeg_file_list (fst (limit_images None sample_images sample_world)) sample_world) = Inr ''ffmpeg_images.txt''"
    "fst (build_output_path int_bitrate_config 739023 sample_world) = Inr ''out/2024/tl_2024_05_17.mp4''"
    "str_items 0 (build_ffmpeg_command int_bitrate_config ''ffmpeg_images.txt'' ''out/2024/tl_2024_05_17.mp4''
         @ [PStr ''-progress'', PStr ''-'', PStr ''-nostats'']) = Inl (TypeError ''sequence item 20: expected str instance, int found'')"
    by code_simp+
  have join: "last (log_w (create_timelapse int_bitrate_config 739023 None sample_world)) =
      (ERROR, ''red'', ''Error creating timelapse: '' @ str_exn (TypeError ''sequence item 20: expected str instance, int found''))"
    using every_stage_exception_logged
      [where cfg = int_bitrate_config
         and date = 739023
         and test_amount = None
         and w = sample_world
         and e = "TypeError ''sequence item 20: expected str instance, int found''"
         and images = sample_images
         and f = "''ffmpeg_images.txt''"
         and p = "''out/2024/tl_2024_05_17.mp4''"]
      join_facts
    by blast
  have launch_facts:
    "fst (select_images sample_config 739023 no_encoder_world) = Inr sample_images \<and> sample_images \<noteq> []"
    "fst (create_ffmpeg_file_list (fst (limit_images None sample_images no_encoder_world)) no_encoder_world) = Inr ''ffmpeg_images.txt''"
    "fst (build_output_path sample_config 739023 no_encoder_world) = Inr ''out/2024/tl_2024_05_17.mp4''"
    "str_items 0 (build_ffmpeg_command sample_config ''ffmpeg_images.txt'' ''out/2024/tl_2024_05_17.mp4''
         @ [PStr ''-progress'', PStr ''-'', PStr ''-nostats'']) = Inr sample_args"
    "fst (popen sample_args no_encoder_world) = Inl (OSError ''[Errno 2] No such file or directory: ffmpeg'')"
    by code_simp+
  have launch: "last (log_w (create_timelapse sample_config 739023 None no_encoder_world)) =
      (ERROR, ''red'', ''Error creating timelapse: '' @ str_exn (OSError ''[Errno 2] No such file or directory: ffmpeg''))"
    using every_stage_exception_logged
      [where cfg = sample_config
         and date = 739023
         and test_amount = None
         and w = no_encoder_world
         and e = "OSError ''[Errno 2] No such file or directory: ffmpeg''"
         and images = sample_images
         and f = "''ffmpeg_images.txt''"
         and p = "''out/2024/tl_2024_05_17.mp4''"
         and cmd = sample_args]
      launch_facts
    by blast
  have prog_facts:
    "fst (select_images sample_config 739023 garbled_progress_world) = Inr sample_images \<and> sample_images \<noteq> []"
    "fst (create_ffmpeg_file_list (fst (limit_images None sample_images garbled_progress_world)) garbled_progress_world) = Inr ''ffmpeg_images.txt''"
    "fst (build_output_path sample_config 739023 garbled_progress_world) = Inr ''out/2024/tl_2024_05_17.mp4''"
    "str_items 0 (build_ffmpeg_command sample_config ''ffmpeg_images.txt'' ''out/2024/tl_2024_05_17.mp4''
         @ [PStr ''-progress'', PStr ''-'', PStr ''-nostats'']) = Inr sample_args"
    "fst (popen sample_args garbled_progress_world) = Inr [''frame=1\<newline>'', ''frame=N/A\<newline>'']"
    "parse_ffmpeg_progress [''frame=1\<newline>'', ''frame=N/A\<newline>'']
         (length (fst (limit_images None sample_images garbled_progress_world))) = Inl (ValueError (''invalid literal for int() with base 10: '' @ [CHR 0x27] @ ''N/A'' @ [CHR 0x27]))"
    by code_simp+
  have prog: "last (log_w (create_timelapse sample_config 739023 None garbled_progress_world)) =
      (ERROR, ''red'', ''Error creating timelapse: '' @ str_exn (ValueError (''invalid literal for int() with base 10: '' @ [CHR 0x27] @ ''N/A'' @ [CHR 0x27])))"
    using every_stage_exception_logged
      [where cfg = sample_config
         and date = 739023
         and test_amount = None
         and w = garbled_progress_world
         and e = "ValueError (''invalid literal for int() with base 10: '' @ [CHR 0x27] @ ''N/A'' @ [CHR 0x27])"
         and images = sample_images
         and f = "''ffmpeg_images.txt''"
         and p = "''out/2024/tl_2024_05_17.mp4''"
         and cmd = sample_args
         and out = "[''frame=1\<newline>'', ''frame=N/A\<newline>'']"]
      prog_facts
    by blast
  have size_facts:
    "fst (select_images sample_config 739023 no_output_world) = Inr sample_images \<and> sample_images \<noteq> []"
    "fst (create_ffmpeg_file_list (fst (limit_images None sample_images no_output_world)) no_output_world) = Inr ''ffmpeg_images.txt''"
    "fst (build_output_path sample_config 739023 no_output_world) = Inr ''out/2024/tl_2024_05_17.mp4''"
    "str_items 0 (build_ffmpeg_command sample_config ''ffmpeg_images.txt'' ''out/2024/tl_2024_05_17.mp4''
         @ [PStr ''-progress'', PStr ''-'', PStr ''-nostats'']) = Inr sample_args"
    "fst (popen sample_args no_output_world) = Inr [''frame=1\<newline>'', ''fps=0.0\<newline>'', ''frame=3\<newline>'', ''progress=end\<newline>'']"
    "parse_ffmpeg_progress [''frame=1\<newline>'', ''fps=0.0\<newline>'', ''frame=3\<newline>'', ''progress=end\<newline>'']
         (length (fst (limit_images None sample_images no_output_world))) = Inr 3"
    "getsize_w no_output_world ''out/2024/tl_2024_05_17.mp4'' = Inl (OSError ''[Errno 2] No such file or directory'')"
    by code_simp+
  have size: "last (log_w (create_timelapse sample_config 739023 None no_output_world)) =
      (ERROR, ''red'', ''Error creating timelapse: '' @ str_exn (OSError ''[Errno 2] No such file or directory''))"
    using every_stage_exception_logged
      [where cfg = sample_config
         and date = 739023
         and test_amount = None
         and w = no_output_world
         and e = "OSError ''[Errno 2] No such file or directory''"
         and images = sample_images
         and f = "''ffmpeg_images.txt''"
         and p = "''out/2024/tl_2024_05_17.mp4''"
         and cmd = sample_args
         and out = "[''frame=1\<newline>'', ''fps=0.0\<newline>'', ''frame=3\<newline>'', ''progress=end\<newline>'']"
         and n = 3]
      size_facts
    by blast
  have side_facts:
    "fst (select_images sample_config 739023 locked_sidecar_world) = Inr sample_images \<and> sample_images \<noteq> []"
    "fst (create_ffmpeg_file_list (fst (limit_images None sample_images locked_sidecar_world)) locked_sidecar_world) = Inr ''ffmpeg_images.txt''"
    "fst (build_output_path sample_config 739023 locked_sidecar_world) = Inr ''out/2024/tl_2024_05_17.mp4''"
    "str_items 0 (build_ffmpeg_command sample_config ''ffmpeg_images.txt'' ''out/2024/tl_2024_05_17.mp4''
         @ [PStr ''-progress'', PStr ''-'', PStr ''-nostats'']) = Inr sample_args"
    "fst (popen sample_args locked_sidecar_world) = Inr [''frame=1\<newline>'', ''fps=0.0\<newline>'', ''frame=3\<newline>'', ''progress=end\<newline>'']"
    "parse_ffmpeg_progress [''frame=1\<newline>'', ''fps=0.0\<newline>'', ''frame=3\<newline>'', ''progress=end\<newline>'']
         (length (fst (limit_images None sample_images locked_sidecar_world))) = Inr 3"
    "getsize_w locked_sidecar_world ''out/2024/tl_2024_05_17.mp4'' = Inr 10485760"
    "metadata_save_to_file sample_config"
    "fst (save_metadata_to_json sample_config ''out/2024/tl_2024_05_17.mp4'' [] locked_sidecar_world) = Inl (OSError ''[Errno 13] Permission denied'')"
    by code_simp+
  have side: "last (log_w (create_timelapse sample_config 739023 None locked_sidecar_world)) =
      (ERROR, ''red'', ''Error creating timelapse: '' @ str_exn (OSError ''[Errno 13] Permission denied''))"
    using every_stage_exception_logged
      [where cfg = sample_config
         and date = 739023
         and test_amount = None
         and w = locked_sidecar_world
         and e = "OSError ''[Errno 13] Permission denied''"
         and images = sample_images
         and f = "''ffmpeg_images.txt''"
         and p = "''out/2024/tl_2024_05_17.mp4''"
         and cmd = sample_args
         and out = "[''frame=1\<newline>'', ''fps=0.0\<newline>'', ''frame=3\<newline>'', ''progress=end\<newline>'']"
         and n = 3
         and file_size = 10485760
         and md = "[]"]
      side_facts
    by blast
  show ?thesis
    using sel man dir join launch prog size side by blast
qed

end
